theory Spec2Isabelle
  imports Complex_Main
begin

section \<open>Data model\<close>

text \<open>
  The simulator of \<^verbatim>\<open>project.py\<close> keeps every qubit as a one-dimensional numpy array of
  amplitudes and the register as a Python list of such arrays. An array is modelled as a
  list of complex numbers, a two-dimensional array as the list of its rows. numpy's
  \<^verbatim>\<open>float64\<close> and \<^verbatim>\<open>complex128\<close> arithmetic is modelled by the exact arithmetic of
  \<^typ>\<open>complex\<close>: rounding is outside this model.

  Every \<^verbatim>\<open>raise\<close> of the source, and every exception the Python runtime or numpy raises on
  the paths modelled here, is a constructor of \<open>error\<close>:
  \<^item> \<open>UnknownInitialState\<close>: \<^verbatim>\<open>ValueError("Unknown state: ...")\<close> of \<^verbatim>\<open>create_qubit\<close>;
  \<^item> \<open>UnknownGate\<close>: \<^verbatim>\<open>ValueError('Unknown gate: ...')\<close> of \<^verbatim>\<open>apply_gate\<close>;
  \<^item> \<open>UnsupportedOperation\<close>: \<^verbatim>\<open>ValueError("Unknown or unsupported gate")\<close> of
    \<^verbatim>\<open>simulate_circuit\<close>;
  \<^item> \<open>InsufficientQubits\<close>: \<^verbatim>\<open>ValueError("CNOT requires at least 2 qubits")\<close> of
    \<^verbatim>\<open>apply_cnot\<close>;
  \<^item> \<open>ShapeMismatch\<close>: the \<^verbatim>\<open>ValueError\<close> of \<^verbatim>\<open>np.dot\<close> on shapes that are not aligned;
  \<^item> \<open>IndexError\<close>: Python's \<^verbatim>\<open>IndexError\<close> of a list index out of range. The source
    has no check of its own for an index or for an empty register, so this one exception
    stands for both.
\<close>

datatype error =
    UnknownInitialState
  | UnknownGate
  | UnsupportedOperation
  | InsufficientQubits
  | ShapeMismatch
  | IndexError

text \<open>
  An element of \<^verbatim>\<open>gates_sequence\<close> is a tuple: \<^verbatim>\<open>(qubit_idx, gate)\<close> of length 2,
  \<^verbatim>\<open>(name, control, target)\<close> of length 3, or of any other length.
\<close>

datatype operation =
    SingleQubitOp int string
  | TwoQubitOp string int int
  | OtherOp

section \<open>Python lists and numpy primitives\<close>

text \<open>Python list indexing: a negative index counts from the end, anything else out of
  range raises \<^verbatim>\<open>IndexError\<close>.\<close>

definition py_index :: "nat \<Rightarrow> int \<Rightarrow> error + nat" where
  "py_index n i =
     (let j = (if i < 0 then int n + i else i)
      in if 0 \<le> j \<and> j < int n then Inr (nat j) else Inl IndexError)"

definition py_get :: "'a list \<Rightarrow> int \<Rightarrow> error + 'a" where
  "py_get xs i = (case py_index (length xs) i of Inl e \<Rightarrow> Inl e | Inr k \<Rightarrow> Inr (xs ! k))"

definition py_set :: "'a list \<Rightarrow> int \<Rightarrow> 'a \<Rightarrow> error + 'a list" where
  "py_set xs i v = (case py_index (length xs) i of Inl e \<Rightarrow> Inl e | Inr k \<Rightarrow> Inr (xs[k := v]))"

text \<open>\<^verbatim>\<open>np.kron\<close> of two one-dimensional arrays: entry \<open>i * length b + j\<close> is \<open>a[i] * b[j]\<close>.\<close>

definition kron :: "complex list \<Rightarrow> complex list \<Rightarrow> complex list" where
  "kron a b = concat (map (\<lambda>x. map (\<lambda>y. x * y) b) a)"

text \<open>\<^verbatim>\<open>np.dot\<close> of a two-dimensional with a one-dimensional array: the row-by-vector sums,
  or a \<^verbatim>\<open>ValueError\<close> when the row length is not the vector's.\<close>

definition np_dot :: "complex list list \<Rightarrow> complex list \<Rightarrow> error + complex list" where
  "np_dot m v =
     (if list_all (\<lambda>row. length row = length v) m
      then Inr (map (\<lambda>row. sum_list (map2 (*) row v)) m)
      else Inl ShapeMismatch)"

section \<open>The simulator\<close>

definition create_qubit :: "string \<Rightarrow> error + complex list" where
  "create_qubit state =
     (if state = ''0'' then Inr [1, 0]
      else if state = ''1'' then Inr [0, 1]
      else if state = ''+'' then Inr [of_real (1 / sqrt 2), of_real (1 / sqrt 2)]
      else if state = ''-'' then Inr [of_real (1 / sqrt 2), of_real ((- 1) / sqrt 2)]
      else Inl UnknownInitialState)"

text \<open>The dictionary \<^verbatim>\<open>gates\<close> local to \<^verbatim>\<open>apply_gate\<close>.\<close>

definition gates :: "string \<rightharpoonup> complex list list" where
  "gates = map_of
     [(''H'', [[of_real (1 / sqrt 2), of_real (1 / sqrt 2)],
               [of_real (1 / sqrt 2), of_real ((- 1) / sqrt 2)]]),
      (''X'', [[0, 1], [1, 0]]),
      (''Z'', [[1, 0], [0, - 1]]),
      (''S'', [[1, 0], [0, \<i>]]),
      (''T'', [[1, 0], [0, exp (\<i> * of_real pi / 4)]])]"

definition apply_gate :: "complex list \<Rightarrow> string \<Rightarrow> error + complex list" where
  "apply_gate qubit gate =
     (case gates gate of
        None \<Rightarrow> Inl UnknownGate
      | Some m \<Rightarrow> np_dot m qubit)"

definition cnot_matrix :: "complex list list" where
  "cnot_matrix = [[1, 0, 0, 0], [0, 1, 0, 0], [0, 0, 0, 1], [0, 0, 1, 0]]"

text \<open>\<^verbatim>\<open>apply_cnot\<close> reads both qubits, multiplies, and only then assigns the two slices,
  the control's first and the target's second.\<close>

definition apply_cnot :: "complex list list \<Rightarrow> int \<Rightarrow> int \<Rightarrow> error + complex list list" where
  "apply_cnot qubits control target =
     (if length qubits < 2 then Inl InsufficientQubits
      else case py_get qubits control of Inl e \<Rightarrow> Inl e | Inr qc \<Rightarrow>
           case py_get qubits target of Inl e \<Rightarrow> Inl e | Inr qt \<Rightarrow>
           case np_dot cnot_matrix (kron qc qt) of Inl e \<Rightarrow> Inl e | Inr new_state_vector \<Rightarrow>
           case py_set qubits control (take 2 new_state_vector) of Inl e \<Rightarrow> Inl e | Inr qubits' \<Rightarrow>
             py_set qubits' target (drop 2 new_state_vector))"

text \<open>One iteration of the loop of \<^verbatim>\<open>simulate_circuit\<close>. In the first branch
  \<^verbatim>\<open>qubits[qubit_idx]\<close> is evaluated before \<^verbatim>\<open>apply_gate\<close> is called.\<close>

fun apply_operation :: "complex list list \<Rightarrow> operation \<Rightarrow> error + complex list list" where
  "apply_operation qubits (SingleQubitOp qubit_idx gate) =
     (case py_get qubits qubit_idx of Inl e \<Rightarrow> Inl e | Inr q \<Rightarrow>
      case apply_gate q gate of Inl e \<Rightarrow> Inl e | Inr q' \<Rightarrow>
        py_set qubits qubit_idx q')"
| "apply_operation qubits (TwoQubitOp name control target) =
     (if name = ''CNOT'' then apply_cnot qubits control target
      else Inl UnsupportedOperation)"
| "apply_operation qubits OtherOp = Inl UnsupportedOperation"

fun run_operations :: "complex list list \<Rightarrow> operation list \<Rightarrow> error + complex list list" where
  "run_operations qubits [] = Inr qubits"
| "run_operations qubits (operation # rest) =
     (case apply_operation qubits operation of
        Inl e \<Rightarrow> Inl e
      | Inr qubits' \<Rightarrow> run_operations qubits' rest)"

text \<open>The list comprehension \<^verbatim>\<open>[create_qubit(state) for state in initial_states]\<close>: the
  first label that raises ends it.\<close>

fun create_qubits :: "string list \<Rightarrow> error + complex list list" where
  "create_qubits [] = Inr []"
| "create_qubits (state # rest) =
     (case create_qubit state of
        Inl e \<Rightarrow> Inl e
      | Inr q \<Rightarrow> (case create_qubits rest of Inl e \<Rightarrow> Inl e | Inr qs \<Rightarrow> Inr (q # qs)))"

definition simulate_circuit :: "string list \<Rightarrow> operation list \<Rightarrow> error + complex list list" where
  "simulate_circuit initial_states gates_sequence =
     (case create_qubits initial_states of
        Inl e \<Rightarrow> Inl e
      | Inr qubits \<Rightarrow> run_operations qubits gates_sequence)"

definition calculate_probabilities :: "complex list list \<Rightarrow> error + real list" where
  "calculate_probabilities qubits =
     (case (if length qubits = 1 then py_get qubits 0
            else case py_get qubits 0 of
                   Inl e \<Rightarrow> Inl e
                 | Inr q0 \<Rightarrow> Inr (foldl kron q0 (drop 1 qubits))) of
        Inl e \<Rightarrow> Inl e
      | Inr state_vector \<Rightarrow> Inr (map (\<lambda>z. (cmod z)\<^sup>2) state_vector))"

section \<open>Vocabulary of the specification\<close>

text \<open>
  The specification describes the controlled-NOT in its own words: the joint vector \<open>j\<close>
  with \<open>j[2p + q] = states[control][p] * states[target][q]\<close>, the product \<open>j' = CNOT4 j\<close>
  with the fixed 4 by 4 permutation matrix, and a resulting collection whose control entry
  is \<open>j'[0:2]\<close>, whose target entry is \<open>j'[2:4]\<close> and whose other entries are those of
  the input. The next four definitions follow these words, not the code; \<open>cnot_spec\<close>
  takes the two positions in the collection.
\<close>

definition joint_spec :: "complex list \<Rightarrow> complex list \<Rightarrow> complex list" where
  "joint_spec a b = map (\<lambda>k. a ! (k div 2) * b ! (k mod 2)) [0..<4]"

definition CNOT4 :: "complex list list" where
  "CNOT4 = [[1, 0, 0, 0], [0, 1, 0, 0], [0, 0, 0, 1], [0, 0, 1, 0]]"

definition cnot4_times :: "complex list \<Rightarrow> complex list" where
  "cnot4_times j = map (\<lambda>row. \<Sum>k\<leftarrow>[0..<4]. row ! k * j ! k) CNOT4"

definition cnot_spec :: "complex list list \<Rightarrow> nat \<Rightarrow> nat \<Rightarrow> complex list list \<Rightarrow> bool" where
  "cnot_spec states c t states' =
     (let j' = cnot4_times (joint_spec (states ! c) (states ! t))
      in length states' = length states \<and>
         states' ! c = take 2 j' \<and>
         states' ! t = drop 2 j' \<and>
         list_all (\<lambda>k. k = c \<or> k = t \<or> states' ! k = states ! k) [0..<length states])"

text \<open>
  An operation references a qubit index greater than or equal to the qubit count \<open>n\<close>:
  the index of a single-qubit operation, or the control or the target of a \<open>CNOT\<close>.
\<close>

definition references_out_of_range :: "nat \<Rightarrow> operation \<Rightarrow> bool" where
  "references_out_of_range n operation =
     (case operation of
        SingleQubitOp qubit_idx gate \<Rightarrow> int n \<le> qubit_idx
      | TwoQubitOp name control target \<Rightarrow>
          name = ''CNOT'' \<and> (int n \<le> control \<or> int n \<le> target)
      | OtherOp \<Rightarrow> False)"

definition is_two_qubit :: "operation \<Rightarrow> bool" where
  "is_two_qubit operation =
     (case operation of TwoQubitOp name control target \<Rightarrow> True | _ \<Rightarrow> False)"

section \<open>Basic facts\<close>

lemma gates_simps:
  "gates ''H'' = Some [[of_real (1 / sqrt 2), of_real (1 / sqrt 2)],
                       [of_real (1 / sqrt 2), of_real ((- 1) / sqrt 2)]]"
  "gates ''X'' = Some [[0, 1], [1, 0]]"
  "gates ''Z'' = Some [[1, 0], [0, - 1]]"
  "gates ''S'' = Some [[1, 0], [0, \<i>]]"
  "gates ''T'' = Some [[1, 0], [0, exp (\<i> * of_real pi / 4)]]"
  by (simp_all add: gates_def)

lemma gates_None:
  "g \<noteq> ''H'' \<Longrightarrow> g \<noteq> ''X'' \<Longrightarrow> g \<noteq> ''Z'' \<Longrightarrow> g \<noteq> ''S'' \<Longrightarrow> g \<noteq> ''T'' \<Longrightarrow> gates g = None"
  by (simp add: gates_def)

lemma half_sq: "(x / sqrt 2)\<^sup>2 = x\<^sup>2 / 2"
  by (simp add: power_divide)

lemma parallelogram_half:
  "((x + y) / sqrt 2)\<^sup>2 + ((x - y) / sqrt 2)\<^sup>2 = x\<^sup>2 + y\<^sup>2" for x y :: real
proof -
  have "((x + y) / sqrt 2)\<^sup>2 + ((x - y) / sqrt 2)\<^sup>2 = ((x + y)\<^sup>2 + (x - y)\<^sup>2) / 2"
    by (simp only: half_sq flip: add_divide_distrib)
  also have "(x + y)\<^sup>2 + (x - y)\<^sup>2 = 2 * (x\<^sup>2 + y\<^sup>2)"
    by (simp add: power2_eq_square algebra_simps)
  finally show ?thesis by simp
qed

text \<open>The two rows of the Hadamard matrix together keep the squared norm.\<close>

lemma cmod_hadamard:
  "(cmod (complex_of_real (1 / sqrt 2) * a + complex_of_real (1 / sqrt 2) * b))\<^sup>2 +
   (cmod (complex_of_real (1 / sqrt 2) * a + complex_of_real ((- 1) / sqrt 2) * b))\<^sup>2 =
   (cmod a)\<^sup>2 + (cmod b)\<^sup>2"
proof -
  have p: "complex_of_real (1 / sqrt 2) * a + complex_of_real (1 / sqrt 2) * b
        = Complex ((Re a + Re b) / sqrt 2) ((Im a + Im b) / sqrt 2)"
    by (simp add: complex_eq_iff add_divide_distrib)
  have m: "complex_of_real (1 / sqrt 2) * a + complex_of_real ((- 1) / sqrt 2) * b
        = Complex ((Re a - Re b) / sqrt 2) ((Im a - Im b) / sqrt 2)"
    by (simp add: complex_eq_iff diff_divide_distrib)
  have "(cmod (Complex ((Re a + Re b) / sqrt 2) ((Im a + Im b) / sqrt 2)))\<^sup>2 +
        (cmod (Complex ((Re a - Re b) / sqrt 2) ((Im a - Im b) / sqrt 2)))\<^sup>2
      = (((Re a + Re b) / sqrt 2)\<^sup>2 + ((Re a - Re b) / sqrt 2)\<^sup>2) +
        (((Im a + Im b) / sqrt 2)\<^sup>2 + ((Im a - Im b) / sqrt 2)\<^sup>2)"
    by (simp add: cmod_power2)
  also have "\<dots> = ((Re a)\<^sup>2 + (Re b)\<^sup>2) + ((Im a)\<^sup>2 + (Im b)\<^sup>2)"
    by (simp only: parallelogram_half)
  also have "\<dots> = (cmod a)\<^sup>2 + (cmod b)\<^sup>2"
    by (simp add: cmod_power2)
  finally show ?thesis unfolding p m .
qed

lemma cmod_exp_i_pi4: "cmod (exp (\<i> * complex_of_real pi / 4)) = 1"
  by (simp add: norm_exp_eq_Re)

subsection \<open>Indexing, lengths and the loop\<close>

lemma py_index_less: "py_index n i = Inr k \<Longrightarrow> k < n"
  by (auto simp: py_index_def Let_def split: if_splits)

lemma py_index_Inl: "py_index n i = Inl e \<Longrightarrow> e = IndexError"
  by (auto simp: py_index_def Let_def split: if_splits)

lemma py_index_ge: "int n \<le> i \<Longrightarrow> py_index n i = Inl IndexError"
  by (simp add: py_index_def)

lemma py_index_negative:
  "- int n \<le> i \<Longrightarrow> i < 0 \<Longrightarrow> py_index n i = Inr (nat (int n + i))"
  by (simp add: py_index_def)

lemma py_set_length: "py_set xs i v = Inr ys \<Longrightarrow> length ys = length xs"
  by (auto simp: py_set_def split: sum.splits)

lemma apply_cnot_length: "apply_cnot qubits control target = Inr qubits' \<Longrightarrow> length qubits' = length qubits"
  by (auto simp: apply_cnot_def py_set_def split: if_splits sum.splits)

lemma apply_operation_length:
  "apply_operation qubits operation = Inr qubits' \<Longrightarrow> length qubits' = length qubits"
  by (cases operation) (auto split: if_splits sum.splits dest: py_set_length apply_cnot_length)

lemma run_operations_length:
  "run_operations qubits ops = Inr qubits' \<Longrightarrow> length qubits' = length qubits"
  by (induction ops arbitrary: qubits) (auto split: sum.splits dest: apply_operation_length)

lemma create_qubits_length:
  "create_qubits initial_states = Inr qubits \<Longrightarrow> length qubits = length initial_states"
  by (induction initial_states arbitrary: qubits) (auto split: sum.splits)

lemma run_operations_append:
  "run_operations qubits (before @ after) =
     (case run_operations qubits before of Inl e \<Rightarrow> Inl e | Inr qubits' \<Rightarrow> run_operations qubits' after)"
  by (induction before arbitrary: qubits) (auto split: sum.splits)

lemma apply_gate_not_IndexError: "apply_gate qubit gate \<noteq> Inl IndexError"
  by (simp add: apply_gate_def np_dot_def split: option.splits)

lemma apply_operation_out_of_range:
  assumes "references_out_of_range (length qubits) operation"
  shows "apply_operation qubits operation =
     Inl (if is_two_qubit operation \<and> length qubits < 2 then InsufficientQubits else IndexError)"
proof (cases operation)
  case (SingleQubitOp qubit_idx gate)
  with assms show ?thesis
    by (simp add: references_out_of_range_def is_two_qubit_def py_get_def py_index_ge)
next
  case (TwoQubitOp name control target)
  with assms have n: "name = ''CNOT''" and r: "int (length qubits) \<le> control \<or> int (length qubits) \<le> target"
    by (simp_all add: references_out_of_range_def)
  show ?thesis
  proof (cases "length qubits < 2")
    case True
    then show ?thesis by (simp add: TwoQubitOp n is_two_qubit_def apply_cnot_def)
  next
    case False
    then show ?thesis using r
      by (auto simp: TwoQubitOp n is_two_qubit_def apply_cnot_def py_get_def py_index_ge
          split: sum.splits dest: py_index_Inl)
  qed
next
  case OtherOp
  with assms show ?thesis by (simp add: references_out_of_range_def)
qed

lemma run_operations_out_of_range:
  "operation \<in> set ops \<Longrightarrow> references_out_of_range (length qubits) operation \<Longrightarrow>
   \<exists>e. run_operations qubits ops = Inl e"
proof (induction ops arbitrary: qubits)
  case Nil
  then show ?case by simp
next
  case (Cons a ops)
  show ?case
  proof (cases "apply_operation qubits a")
    case (Inl e)
    then show ?thesis by simp
  next
    case (Inr qubits')
    then have len: "length qubits' = length qubits" by (rule apply_operation_length)
    have "operation \<noteq> a"
      using Inr apply_operation_out_of_range [OF Cons.prems(2)] by auto
    with Cons.prems(1) have "operation \<in> set ops" by simp
    with Cons.IH [of qubits'] Cons.prems(2) len Inr show ?thesis by simp
  qed
qed

subsection \<open>The controlled-NOT on two distinct positions\<close>

lemma upt_4: "[0..<4] = [0, 1, 2, 3]"
  by (simp add: upt_rec)

lemma length_2_E:
  assumes "length xs = 2"
  obtains x y where "xs = [x, y]"
  using assms by (cases xs; cases "tl xs") auto

lemma kron_joint_spec:
  "length a = 2 \<Longrightarrow> length b = 2 \<Longrightarrow> kron a b = joint_spec a b"
  by (elim length_2_E) (simp add: kron_def joint_spec_def upt_4)

lemma np_dot_cnot:
  "length a = 2 \<Longrightarrow> length b = 2 \<Longrightarrow>
   np_dot cnot_matrix (joint_spec a b) = Inr (cnot4_times (joint_spec a b))"
  by (simp add: np_dot_def cnot_matrix_def cnot4_times_def CNOT4_def joint_spec_def upt_4)

lemma apply_cnot_distinct:
  assumes c: "py_index (length qubits) control = Inr c"
    and t: "py_index (length qubits) target = Inr t"
    and "c \<noteq> t"
    and lc: "length (qubits ! c) = 2" and lt: "length (qubits ! t) = 2"
  shows "apply_cnot qubits control target =
    Inr (qubits[c := take 2 (cnot4_times (joint_spec (qubits ! c) (qubits ! t))),
                t := drop 2 (cnot4_times (joint_spec (qubits ! c) (qubits ! t)))])"
proof -
  have "c < length qubits" "t < length qubits"
    using c t by (auto dest: py_index_less)
  with \<open>c \<noteq> t\<close> have "\<not> length qubits < 2" by auto
  then show ?thesis
    by (simp add: apply_cnot_def py_get_def py_set_def c t kron_joint_spec [OF lc lt]
        np_dot_cnot [OF lc lt])
qed

section \<open>State construction\<close>

text \<open>
  Claim C7. \<^verbatim>\<open>create_qubit\<close> maps the label \<open>0\<close> to \<open>(1, 0)\<close>, \<open>1\<close> to \<open>(0, 1)\<close>, \<open>+\<close> to
  \<open>(1/\<surd>2, 1/\<surd>2)\<close> and \<open>-\<close> to \<open>(1/\<surd>2, -1/\<surd>2)\<close>, and fails with the unknown-state
  error for every other label.
\<close>

theorem create_qubit_labels:
  "create_qubit ''0'' = Inr [1, 0] \<and>
   create_qubit ''1'' = Inr [0, 1] \<and>
   create_qubit ''+'' = Inr [1 / complex_of_real (sqrt 2), 1 / complex_of_real (sqrt 2)] \<and>
   create_qubit ''-'' = Inr [1 / complex_of_real (sqrt 2), - (1 / complex_of_real (sqrt 2))] \<and>
   (label \<notin> {''0'', ''1'', ''+'', ''-''} \<longrightarrow> create_qubit label = Inl UnknownInitialState)"
  by (simp add: create_qubit_def)

theorem create_qubit_labels_witness:
  "''2'' \<notin> {''0'', ''1'', ''+'', ''-''} \<and> create_qubit ''2'' = Inl UnknownInitialState"
  using create_qubit_labels [of "''2''"] by simp

section \<open>The gate table and gate application\<close>

text \<open>
  Claim C8. The gate table holds the listed 2 by 2 matrix under each of the names \<open>H\<close>,
  \<open>X\<close>, \<open>Z\<close>, \<open>S\<close> and \<open>T\<close>, the last being \<open>[[1, 0], [0, e^(i\<pi>/4)]]\<close>, and
  \<^verbatim>\<open>apply_gate\<close> fails with the unknown-gate error for every other name, whatever the
  qubit.
\<close>

theorem gate_lookup:
  "gates ''H'' = Some [[1 / complex_of_real (sqrt 2), 1 / complex_of_real (sqrt 2)],
                       [1 / complex_of_real (sqrt 2), - (1 / complex_of_real (sqrt 2))]] \<and>
   gates ''X'' = Some [[0, 1], [1, 0]] \<and>
   gates ''Z'' = Some [[1, 0], [0, - 1]] \<and>
   gates ''S'' = Some [[1, 0], [0, \<i>]] \<and>
   gates ''T'' = Some [[1, 0], [0, exp (\<i> * complex_of_real pi / 4)]] \<and>
   (gate \<notin> {''H'', ''X'', ''Z'', ''S'', ''T''} \<longrightarrow> apply_gate qubit gate = Inl UnknownGate)"
  by (simp add: gates_simps apply_gate_def gates_None)

theorem gate_lookup_witness:
  "''Y'' \<notin> {''H'', ''X'', ''Z'', ''S'', ''T''} \<and> apply_gate [1, 0] ''Y'' = Inl UnknownGate"
  using gate_lookup [of "''Y''" "[1, 0]"] by simp

text \<open>
  Claim C5. For each gate name among \<open>H\<close>, \<open>X\<close>, \<open>Z\<close>, \<open>S\<close>, \<open>T\<close> and each qubit
  \<open>(a0, a1)\<close> of unit norm, \<^verbatim>\<open>apply_gate\<close> returns a qubit \<open>(b0, b1)\<close> of unit norm.
\<close>

theorem apply_gate_unit_norm:
  assumes "gate \<in> {''H'', ''X'', ''Z'', ''S'', ''T''}"
    and "(cmod a0)\<^sup>2 + (cmod a1)\<^sup>2 = 1"
  shows "\<exists>b0 b1. apply_gate [a0, a1] gate = Inr [b0, b1] \<and> (cmod b0)\<^sup>2 + (cmod b1)\<^sup>2 = 1"
proof -
  consider "gate = ''H''" | "gate = ''X''" | "gate = ''Z''" | "gate = ''S''" | "gate = ''T''"
    using assms(1) by auto
  then show ?thesis
  proof cases
    case 1
    have "apply_gate [a0, a1] gate =
      Inr [complex_of_real (1 / sqrt 2) * a0 + complex_of_real (1 / sqrt 2) * a1,
           complex_of_real (1 / sqrt 2) * a0 + complex_of_real ((- 1) / sqrt 2) * a1]"
      unfolding 1 apply_gate_def by (simp add: gates_simps np_dot_def)
    then show ?thesis
      using cmod_hadamard [of a0 a1] assms(2) by (intro exI conjI) (assumption, simp)
  next
    case 2
    have "apply_gate [a0, a1] gate = Inr [a1, a0]"
      unfolding 2 apply_gate_def by (simp add: gates_simps np_dot_def)
    then show ?thesis using assms(2) by (simp add: add.commute)
  next
    case 3
    have "apply_gate [a0, a1] gate = Inr [a0, - a1]"
      unfolding 3 apply_gate_def by (simp add: gates_simps np_dot_def)
    then show ?thesis using assms(2) by simp
  next
    case 4
    have "apply_gate [a0, a1] gate = Inr [a0, \<i> * a1]"
      unfolding 4 apply_gate_def by (simp add: gates_simps np_dot_def)
    then show ?thesis using assms(2) by (simp add: norm_mult)
  next
    case 5
    have "apply_gate [a0, a1] gate = Inr [a0, exp (\<i> * complex_of_real pi / 4) * a1]"
      unfolding 5 apply_gate_def by (simp add: gates_simps np_dot_def)
    then show ?thesis using assms(2) cmod_exp_i_pi4 by (simp add: norm_mult)
  qed
qed

theorem apply_gate_unit_norm_witness:
  "''H'' \<in> {''H'', ''X'', ''Z'', ''S'', ''T''} \<and> (cmod 1)\<^sup>2 + (cmod 0)\<^sup>2 = 1 \<and>
   (\<exists>b0 b1. apply_gate [1, 0] ''H'' = Inr [b0, b1] \<and> (cmod b0)\<^sup>2 + (cmod b1)\<^sup>2 = 1)"
  using apply_gate_unit_norm [of "''H''" 1 0] by simp

section \<open>Probability extraction\<close>

text \<open>
  Claim C9. \<^verbatim>\<open>calculate_probabilities\<close> fails on the empty register, with the
  \<^verbatim>\<open>IndexError\<close> of \<^verbatim>\<open>qubits[0]\<close>, and returns a distribution for every register that is
  not empty.
\<close>

theorem calculate_probabilities_empty:
  "calculate_probabilities [] = Inl IndexError \<and>
   (qubits \<noteq> [] \<longrightarrow> (\<exists>p. calculate_probabilities qubits = Inr p))"
  by (cases qubits) (auto simp: calculate_probabilities_def py_get_def py_index_def)

theorem calculate_probabilities_empty_witness:
  "[[1, 0]] \<noteq> ([] :: complex list list) \<and> (\<exists>p. calculate_probabilities [[1, 0]] = Inr p)"
  using calculate_probabilities_empty [of "[[1, 0]]"] by simp

text \<open>
  Claim C4, as stated: the distribution of the register \<open>[|0>, |1>]\<close> is \<open>[0, 0, 1, 0]\<close>.
  It is not: the Kronecker product of \<open>(1, 0)\<close> and \<open>(0, 1)\<close> is \<open>(0, 1, 0, 0)\<close>.
\<close>

theorem probabilities_01_not_0010:
  "calculate_probabilities [[1, 0], [0, 1]] \<noteq> Inr [0, 0, 1, 0]"
  by (simp add: calculate_probabilities_def py_get_def py_index_def kron_def)

text \<open>
  Claim C4, amended: for the register built from the labels \<open>0\<close> and \<open>1\<close>,
  \<^verbatim>\<open>calculate_probabilities\<close> returns \<open>[0, 1, 0, 0]\<close>: all the mass is at index 1, the
  basis state \<open>|01>\<close> with qubit 0 the most significant bit.
\<close>

theorem probabilities_01:
  "create_qubits [''0'', ''1''] = Inr [[1, 0], [0, 1]] \<and>
   calculate_probabilities [[1, 0], [0, 1]] = Inr [0, 1, 0, 0]"
  by (simp add: create_qubit_def calculate_probabilities_def py_get_def py_index_def kron_def)

section \<open>The controlled-NOT\<close>

text \<open>
  Claim C1 says that \<^verbatim>\<open>apply_cnot\<close> with control 0 and target 1 leaves the register
  \<open>[|0>, |1>]\<close> unchanged, as a controlled-NOT does when the control is \<open>|0>\<close>. The code
  returns something else: the joint vector is \<open>(0, 1, 0, 0)\<close>, the matrix leaves it as it
  is, and the two slices make qubit 0 into \<open>(0, 1)\<close> and qubit 1 into \<open>(0, 0)\<close>.
\<close>

theorem apply_cnot_01:
  "create_qubits [''0'', ''1''] = Inr [[1, 0], [0, 1]] \<and>
   apply_cnot [[1, 0], [0, 1]] 0 1 = Inr [[0, 1], [0, 0]]"
  by (simp add: create_qubit_def apply_cnot_def py_get_def py_set_def py_index_def kron_def
      np_dot_def cnot_matrix_def)

text \<open>
  Claim C2 says that the distribution extracted from the result of any successful run sums
  to 1. The run of the single operation \<open>CNOT 0 1\<close> from the labels \<open>0\<close> and \<open>1\<close>
  succeeds, and the distribution extracted from its result is \<open>[0, 0, 0, 0]\<close>, of sum 0.
\<close>

theorem run_cnot_probabilities_sum:
  "simulate_circuit [''0'', ''1''] [TwoQubitOp ''CNOT'' 0 1] = Inr [[0, 1], [0, 0]] \<and>
   calculate_probabilities [[0, 1], [0, 0]] = Inr [0, 0, 0, 0] \<and>
   sum_list [0, 0, 0, 0 :: real] = 0"
  by (simp add: simulate_circuit_def create_qubit_def apply_cnot_def py_get_def py_set_def
      py_index_def kron_def np_dot_def cnot_matrix_def calculate_probabilities_def)

text \<open>
  Claim C3, as stated, covers every pair of in-range indices, so also a control equal to
  the target. There the second assignment overwrites the first: on \<open>[|0>, |1>]\<close> with both
  indices 0 the joint vector is \<open>(1, 0, 0, 0)\<close>, and entry 0 ends as its last two
  components \<open>(0, 0)\<close>, not as its first two \<open>(1, 0)\<close>.
\<close>

theorem apply_cnot_same_index:
  "apply_cnot [[1, 0], [0, 1]] 0 0 = Inr [[0, 0], [0, 1]] \<and>
   \<not> cnot_spec [[1, 0], [0, 1]] 0 0 [[0, 0], [0, 1]]"
  by (simp add: apply_cnot_def py_get_def py_set_def py_index_def kron_def np_dot_def
      cnot_matrix_def cnot_spec_def cnot4_times_def CNOT4_def joint_spec_def upt_4)

text \<open>
  Claim C3, amended: for a collection of qubits and two indices that Python accepts
  (\<open>-n \<le> i < n\<close>) and that denote two distinct positions \<open>c\<close> and \<open>t\<close>, both holding
  2-amplitude qubits, \<^verbatim>\<open>apply_cnot\<close> returns the collection whose entry \<open>c\<close> is the
  first two and whose entry \<open>t\<close> is the last two components of \<open>CNOT4 j\<close>, \<open>j\<close> the
  Kronecker product of the two qubits, all other entries unchanged.
\<close>

theorem apply_cnot_spec:
  assumes "py_index (length qubits) control = Inr c"
    and "py_index (length qubits) target = Inr t"
    and "c \<noteq> t"
    and "length (qubits ! c) = 2" and "length (qubits ! t) = 2"
  shows "\<exists>qubits'. apply_cnot qubits control target = Inr qubits' \<and> cnot_spec qubits c t qubits'"
proof -
  let ?j = "cnot4_times (joint_spec (qubits ! c) (qubits ! t))"
  have lt: "c < length qubits" "t < length qubits"
    using assms(1,2) by (auto dest: py_index_less)
  have "cnot_spec qubits c t (qubits[c := take 2 ?j, t := drop 2 ?j])"
    using lt \<open>c \<noteq> t\<close> by (auto simp: cnot_spec_def Let_def list_all_iff nth_list_update)
  with apply_cnot_distinct [OF assms] show ?thesis by simp
qed

theorem apply_cnot_spec_witness:
  "py_index (length [[1, 0], [0, 1 :: complex]]) 1 = Inr 1 \<and>
   py_index (length [[1, 0], [0, 1 :: complex]]) (- 2) = Inr 0 \<and>
   (1 :: nat) \<noteq> 0 \<and> length ([[1, 0], [0, 1 :: complex]] ! 1) = 2 \<and>
   length ([[1, 0], [0, 1 :: complex]] ! 0) = 2 \<and>
   (\<exists>qubits'. apply_cnot [[1, 0], [0, 1]] 1 (- 2) = Inr qubits' \<and>
      cnot_spec [[1, 0], [0, 1]] 1 0 qubits')"
  using apply_cnot_spec [of "[[1, 0], [0, 1]]" 1 1 "- 2" 0]
  by (simp add: py_index_def)


section \<open>Running a circuit\<close>

text \<open>
  Claim C6, as stated: a run with an operation that references a qubit index greater than
  or equal to the qubit count fails with the index error. On one qubit the operation
  \<open>CNOT 0 1\<close> references index 1, and the run fails in the length check of
  \<^verbatim>\<open>apply_cnot\<close>, before any index is looked at.
\<close>

theorem run_out_of_range_counterexample:
  "references_out_of_range (length [''0'']) (TwoQubitOp ''CNOT'' 0 1) \<and>
   simulate_circuit [''0''] [TwoQubitOp ''CNOT'' 0 1] = Inl InsufficientQubits \<and>
   simulate_circuit [''0''] [TwoQubitOp ''CNOT'' 0 1] \<noteq> Inl IndexError"
  by (simp add: references_out_of_range_def simulate_circuit_def create_qubit_def apply_cnot_def)

text \<open>
  Claim C6, amended. A run whose sequence contains an operation referencing a qubit index
  greater than or equal to the qubit count fails: it returns an error and no qubit states.
  When the labels are valid and the operations before that one succeed, the error is the
  index error, except for a \<open>CNOT\<close> on fewer than 2 qubits, which fails with the
  too-few-qubits error.
\<close>

theorem run_out_of_range:
  "(operation \<in> set gates_sequence \<and> references_out_of_range (length initial_states) operation \<longrightarrow>
      (\<exists>e. simulate_circuit initial_states gates_sequence = Inl e)) \<and>
   (create_qubits initial_states = Inr qubits \<and> run_operations qubits before = Inr qubits' \<and>
    references_out_of_range (length initial_states) operation \<longrightarrow>
      simulate_circuit initial_states (before @ operation # after) =
        Inl (if is_two_qubit operation \<and> length initial_states < 2 then InsufficientQubits
             else IndexError))"
proof (intro conjI impI)
  assume a: "operation \<in> set gates_sequence \<and> references_out_of_range (length initial_states) operation"
  show "\<exists>e. simulate_circuit initial_states gates_sequence = Inl e"
  proof (cases "create_qubits initial_states")
    case (Inl e)
    then show ?thesis by (simp add: simulate_circuit_def)
  next
    case (Inr qs)
    then have "length qs = length initial_states" by (rule create_qubits_length)
    with a run_operations_out_of_range [of operation gates_sequence qs] Inr
    show ?thesis by (simp add: simulate_circuit_def)
  qed
next
  assume b: "create_qubits initial_states = Inr qubits \<and> run_operations qubits before = Inr qubits' \<and>
    references_out_of_range (length initial_states) operation"
  then have "length qubits' = length initial_states"
    using create_qubits_length run_operations_length by fastforce
  with b apply_operation_out_of_range [of qubits' operation]
  show "simulate_circuit initial_states (before @ operation # after) =
        Inl (if is_two_qubit operation \<and> length initial_states < 2 then InsufficientQubits
             else IndexError)"
    by (simp add: simulate_circuit_def run_operations_append)
qed

theorem run_out_of_range_witness:
  "SingleQubitOp 2 ''H'' \<in> set [SingleQubitOp 0 ''X'', SingleQubitOp 2 ''H''] \<and>
   references_out_of_range (length [''0'', ''1'']) (SingleQubitOp 2 ''H'') \<and>
   create_qubits [''0'', ''1''] = Inr [[1, 0], [0, 1]] \<and>
   run_operations [[1, 0], [0, 1]] [SingleQubitOp 0 ''X''] = Inr [[0, 1], [0, 1]] \<and>
   simulate_circuit [''0'', ''1''] [SingleQubitOp 0 ''X'', SingleQubitOp 2 ''H''] = Inl IndexError"
  using run_out_of_range [of "SingleQubitOp 2 ''H''" "[SingleQubitOp 0 ''X'', SingleQubitOp 2 ''H'']"
      "[''0'', ''1'']" "[[1, 0], [0, 1]]" "[SingleQubitOp 0 ''X'']" "[[0, 1], [0, 1]]" "[]"]
  by (simp add: references_out_of_range_def is_two_qubit_def create_qubit_def py_get_def py_set_def
      py_index_def apply_gate_def gates_simps np_dot_def)

text \<open>
  Claim C10. On a run of \<open>n\<close> qubits, a single-qubit operation whose index \<open>t\<close> is
  negative with \<open>-n \<le> t < 0\<close> does not fail with the index error: the gate is applied
  to qubit \<open>n + t\<close>, and the run goes on from the collection updated at that position (or
  stops with the error of \<^verbatim>\<open>apply_gate\<close>).
\<close>

theorem negative_target_index:
  assumes "create_qubits initial_states = Inr qubits"
    and "run_operations qubits before = Inr qubits'"
    and "- int (length initial_states) \<le> t" and "t < 0"
  shows "apply_operation qubits' (SingleQubitOp t gate) \<noteq> Inl IndexError \<and>
     simulate_circuit initial_states (before @ SingleQubitOp t gate # after) =
       (case apply_gate (qubits' ! nat (int (length initial_states) + t)) gate of
          Inl e \<Rightarrow> Inl e
        | Inr q' \<Rightarrow> run_operations (qubits'[nat (int (length initial_states) + t) := q']) after)"
proof -
  have len: "length qubits' = length initial_states"
    using assms(1,2) create_qubits_length run_operations_length by fastforce
  have idx: "py_index (length qubits') t = Inr (nat (int (length initial_states) + t))"
    using py_index_negative [of "length qubits'" t] assms(3,4) len by simp
  have step: "apply_operation qubits' (SingleQubitOp t gate) =
       (case apply_gate (qubits' ! nat (int (length initial_states) + t)) gate of
          Inl e \<Rightarrow> Inl e
        | Inr q' \<Rightarrow> Inr (qubits'[nat (int (length initial_states) + t) := q']))"
    by (simp add: py_get_def py_set_def idx split: sum.splits)
  have "apply_operation qubits' (SingleQubitOp t gate) \<noteq> Inl IndexError"
    unfolding step using apply_gate_not_IndexError [of "qubits' ! nat (int (length initial_states) + t)" gate]
    by (auto split: sum.splits)
  moreover have "simulate_circuit initial_states (before @ SingleQubitOp t gate # after) =
       (case apply_gate (qubits' ! nat (int (length initial_states) + t)) gate of
          Inl e \<Rightarrow> Inl e
        | Inr q' \<Rightarrow> run_operations (qubits'[nat (int (length initial_states) + t) := q']) after)"
  proof -
    have "simulate_circuit initial_states (before @ SingleQubitOp t gate # after) =
        (case apply_operation qubits' (SingleQubitOp t gate) of
           Inl e \<Rightarrow> Inl e
         | Inr qs \<Rightarrow> run_operations qs after)"
      using assms(1,2)
      by (simp add: simulate_circuit_def run_operations_append del: apply_operation.simps)
    also have "\<dots> =
       (case apply_gate (qubits' ! nat (int (length initial_states) + t)) gate of
          Inl e \<Rightarrow> Inl e
        | Inr q' \<Rightarrow> run_operations (qubits'[nat (int (length initial_states) + t) := q']) after)"
      unfolding step by (simp split: sum.splits)
    finally show ?thesis .
  qed
  ultimately show ?thesis by simp
qed

theorem negative_target_index_witness:
  "create_qubits [''0'', ''1''] = Inr [[1, 0], [0, 1]] \<and>
   run_operations [[1, 0], [0, 1]] [] = Inr [[1, 0], [0, 1]] \<and>
   - int (length [''0'', ''1'']) \<le> - 1 \<and> (- 1 :: int) < 0 \<and>
   simulate_circuit [''0'', ''1''] [SingleQubitOp (- 1) ''X''] = Inr [[1, 0], [1, 0]]"
  using negative_target_index [of "[''0'', ''1'']" "[[1, 0], [0, 1]]" "[]" "[[1, 0], [0, 1]]" "- 1" "''X''" "[]"]
  by (simp add: create_qubit_def apply_gate_def gates_simps np_dot_def)

end
